theory Spec2Isabelle
  imports Complex_Main
begin

section \<open>Sample conversion (main.js, onaudioprocess, lines 388-395)\<close>

text \<open>
  The elements of the Float32Array handed to \<open>onaudioprocess\<close> are IEEE numbers: a finite
  value, one of the two infinities, or NaN. A finite float32 has a 24 bit significand, and
  the two factors 0x7FFF and 0x8000 have at most 15 bits, so the products the loop forms are
  exact in double precision: the finite values are modelled by the real numbers they denote.
  (The two zeros are not distinguished: both are stored as 0.)
\<close>

datatype number = NaN | NegInfinity | Finite real | PosInfinity

text \<open>The relational operator \<open><\<close> of the language: false as soon as one side is NaN.\<close>

fun less_than :: "number \<Rightarrow> number \<Rightarrow> bool" where
  "less_than NaN _ = False"
| "less_than _ NaN = False"
| "less_than _ NegInfinity = False"
| "less_than NegInfinity _ = True"
| "less_than PosInfinity _ = False"
| "less_than (Finite a) PosInfinity = True"
| "less_than (Finite a) (Finite b) = (a < b)"

definition Math_min :: "number \<Rightarrow> number \<Rightarrow> number" where
  "Math_min a b = (if a = NaN \<or> b = NaN then NaN else if less_than b a then b else a)"

definition Math_max :: "number \<Rightarrow> number \<Rightarrow> number" where
  "Math_max a b = (if a = NaN \<or> b = NaN then NaN else if less_than a b then b else a)"

text \<open>Multiplication by one of the two positive constants of the loop.\<close>

fun times_const :: "number \<Rightarrow> real \<Rightarrow> number" where
  "times_const NaN c = NaN"
| "times_const NegInfinity c = NegInfinity"
| "times_const PosInfinity c = PosInfinity"
| "times_const (Finite x) c = Finite (x * c)"

text \<open>
  Storing a number into an Int16Array element converts it with ToInt16: NaN and the
  infinities become 0, a finite number is truncated towards zero and then reduced modulo
  \<open>2 ^ 16\<close> into the signed range.
\<close>

definition Math_trunc :: "real \<Rightarrow> int" where
  "Math_trunc x = (if x < 0 then \<lceil>x\<rceil> else \<lfloor>x\<rfloor>)"

definition wrap16 :: "int \<Rightarrow> int" where
  "wrap16 n = (n + 32768) mod 65536 - 32768"

fun ToInt16 :: "number \<Rightarrow> int" where
  "ToInt16 (Finite x) = wrap16 (Math_trunc x)"
| "ToInt16 _ = 0"

text \<open>\<open>const s = Math.max(-1, Math.min(1, inputData[i]))\<close>\<close>

definition clamp_sample :: "number \<Rightarrow> number" where
  "clamp_sample x = Math_max (Finite (- 1)) (Math_min (Finite 1) x)"

text \<open>\<open>pcm16[i] = s < 0 ? s * 0x8000 : s * 0x7FFF\<close>\<close>

definition sample_to_pcm16 :: "number \<Rightarrow> int" where
  "sample_to_pcm16 x =
     (let s = clamp_sample x
      in ToInt16 (if less_than s (Finite 0) then times_const s 32768 else times_const s 32767))"

text \<open>The loop over the block: one output sample per input sample, in order.\<close>

definition convert_block :: "number list \<Rightarrow> int list" where
  "convert_block inputData = map sample_to_pcm16 inputData"

text \<open>
  The converter in the words of the specification: clamp to \<open>[-1, 1]\<close>, then round
  \<open>s * 32767\<close> for \<open>s \<ge> 0\<close> and \<open>s * 32768\<close> otherwise, NaN taken as 0.
\<close>

definition spec_clamp :: "number \<Rightarrow> real" where
  "spec_clamp x = (case x of NaN \<Rightarrow> 0 | NegInfinity \<Rightarrow> - 1 | PosInfinity \<Rightarrow> 1
                   | Finite r \<Rightarrow> max (- 1) (min 1 r))"

definition spec_sample_converter :: "number \<Rightarrow> int" where
  "spec_sample_converter x =
     (let s = spec_clamp x in if 0 \<le> s then round (s * 32767) else round (s * 32768))"

text \<open>The product that is stored, for a finite sample already clamped.\<close>

definition scaled :: "real \<Rightarrow> real" where
  "scaled c = (if c < 0 then c * 32768 else c * 32767)"

section \<open>Values of parsed frames\<close>

text \<open>
  The value \<open>JSON.parse\<close> returns, and the values the handler reads out of it. The pairs of
  a \<open>JObject\<close> are the own properties of the object, a name being bound to the first pair
  that carries it. \<open>JUndefined\<close> is what reading an absent property gives.
\<close>

datatype jsval =
    JUndefined
  | JNull
  | JBool bool
  | JNumber real
  | JString string
  | JArray "jsval list"
  | JObject "(string \<times> jsval) list"

text \<open>
  Reading property \<open>k\<close> of \<open>v\<close> (\<open>v.k\<close>, \<open>v[0]\<close> with \<open>k = ''0''\<close>), for the names
  main.js reads: \<open>type\<close>, \<open>channel\<close>, \<open>alternatives\<close>, \<open>0\<close>, \<open>transcript\<close>,
  \<open>is_final\<close>, \<open>speech_final\<close>, \<open>error\<close>. None of them is inherited from a built-in
  prototype. \<open>None\<close> is the TypeError raised on \<open>null\<close> and \<open>undefined\<close>.
\<close>

fun get_property :: "jsval \<Rightarrow> string \<Rightarrow> jsval option" where
  "get_property JUndefined k = None"
| "get_property JNull k = None"
| "get_property (JObject kvs) k =
     (case map_of kvs k of None \<Rightarrow> Some JUndefined | Some v \<Rightarrow> Some v)"
| "get_property (JArray xs) k =
     Some (if k = ''0'' then (case xs of [] \<Rightarrow> JUndefined | x # _ \<Rightarrow> x) else JUndefined)"
| "get_property (JString cs) k =
     Some (if k = ''0'' then (case cs of [] \<Rightarrow> JUndefined | c # _ \<Rightarrow> JString [c])
           else JUndefined)"
| "get_property (JBool b) k = Some JUndefined"
| "get_property (JNumber n) k = Some JUndefined"

text \<open>Optional chaining \<open>v?.k\<close>: \<open>undefined\<close> where \<open>v.k\<close> would raise.\<close>

definition optional_get :: "jsval \<Rightarrow> string \<Rightarrow> jsval" where
  "optional_get v k = (case get_property v k of None \<Rightarrow> JUndefined | Some x \<Rightarrow> x)"

fun truthy :: "jsval \<Rightarrow> bool" where
  "truthy JUndefined = False"
| "truthy JNull = False"
| "truthy (JBool b) = b"
| "truthy (JNumber n) = (n \<noteq> 0)"
| "truthy (JString cs) = (cs \<noteq> [])"
| "truthy (JArray xs) = True"
| "truthy (JObject kvs) = True"

text \<open>\<open>a || b\<close>\<close>

definition js_or :: "jsval \<Rightarrow> jsval \<Rightarrow> jsval" where
  "js_or a b = (if truthy a then a else b)"

section \<open>The page: session state, document elements, browser objects\<close>

datatype ready_state = CONNECTING | OPEN | CLOSING | CLOSED

text \<open>
  A WebSocket object: the query parameters of its URL, its \<open>readyState\<close>, the binary frames
  handed to \<open>send\<close> (oldest first) and the arguments of the \<open>close\<close> call that closed it.
\<close>

record websocket =
  query :: "(string \<times> string) list"
  readyState :: ready_state
  sent :: "int list list"
  close_args :: "(nat \<times> string) option"

datatype track_state = Live | Ended

text \<open>
  A ScriptProcessor node: whether its output is connected, and the counter
  \<open>audioChunkCount\<close> its handler closes over.
\<close>

record script_processor =
  output_connected :: bool
  audioChunkCount :: nat

datatype dom_child = Elem string string | Text string

text \<open>
  A child of the transcript container: the empty-state element, or an item made by
  \<open>addTranscriptItem\<close>. \<open>interim\<close> says that the class list of the item holds
  \<open>transcript-item--interim\<close>; \<open>item_text\<close> is the value assigned to \<open>textContent\<close>.
\<close>

record transcript_item =
  interim :: bool
  timestamp :: string
  item_text :: jsval

datatype container_child = EmptyState | Item transcript_item

datatype console_level = ConsoleLog | ConsoleError

text \<open>
  One record for everything the handlers read and write. First the object \<open>state\<close> of
  main.js (\<open>ws\<close>, \<open>mediaStream\<close> and \<open>audioProcessor\<close> hold a reference, an index into the
  browser's objects below, or are null; \<open>audioContext\<close> says that the field holds a context),
  then the properties of \<open>elements\<close> that are touched, then the browser: the WebSocket,
  MediaStream and ScriptProcessor objects created so far, the alerts shown, the console,
  the number of pending \<open>setTimeout\<close> callbacks of \<open>handleWebSocketClose\<close> and the number of
  \<open>startMicrophone\<close> calls waiting for \<open>getUserMedia\<close>.
\<close>

record page =
  ws :: "nat option"
  isConnected :: bool
  audioContext :: bool
  mediaStream :: "nat option"
  audioProcessor :: "nat option"
  stats_messages :: nat
  stats_finals :: nat
  config_model :: string
  config_language :: string
  modelSelect_value :: string
  modelSelect_disabled :: bool
  languageInput_value :: string
  languageInput_disabled :: bool
  connectBtn_disabled :: bool
  connectBtn_children :: "dom_child list"
  connectOverlay_hidden :: bool
  disconnectContainer_hidden :: bool
  transcriptContainer_hidden :: bool
  transcriptContainer_children :: "container_child list"
  emptyState_hidden :: "bool option"
  connectionStatus_className :: string
  connectionStatus_children :: "dom_child list"
  micStatus_textContent :: string
  micStatus_color :: string
  currentModel_textContent :: string
  currentLanguage_textContent :: string
  messageCount_textContent :: jsval
  finalCount_textContent :: jsval
  sockets :: "websocket list"
  streams :: "track_state list list"
  processors :: "script_processor list"
  alerts :: "string list"
  console :: "(console_level \<times> string) list"
  timers :: nat
  micRequests :: nat

section \<open>Helpers of main.js\<close>

definition console_log :: "string \<Rightarrow> page \<Rightarrow> page" where
  "console_log msg s = s\<lparr>console := console s @ [(ConsoleLog, msg)]\<rparr>"

definition console_error :: "string \<Rightarrow> page \<Rightarrow> page" where
  "console_error msg s = s\<lparr>console := console s @ [(ConsoleError, msg)]\<rparr>"

text \<open>\<open>showError\<close> (lines 495-497): \<open>alert(message)\<close>.\<close>

definition showError :: "string \<Rightarrow> page \<Rightarrow> page" where
  "showError message s = s\<lparr>alerts := alerts s @ [message]\<rparr>"

text \<open>\<open>resetConnectButton\<close> (lines 315-325).\<close>

definition resetConnectButton :: "page \<Rightarrow> page" where
  "resetConnectButton s =
     s\<lparr>connectBtn_disabled := False,
       connectBtn_children := [Elem ''i'' ''fa-solid fa-plug'', Text '' Connect'']\<rparr>"

text \<open>\<open>updateConnectionStatus\<close> (lines 427-446).\<close>

definition updateConnectionStatus :: "bool \<Rightarrow> string \<Rightarrow> page \<Rightarrow> page" where
  "updateConnectionStatus is_connected label s =
     s\<lparr>connectionStatus_className :=
         (if is_connected then ''status-badge status-badge--connected''
          else ''status-badge status-badge--disconnected''),
       connectionStatus_children :=
         [Elem ''span''
            (if is_connected then ''status-indicator status-indicator--connected''
             else ''status-indicator status-indicator--disconnected''),
          Text label]\<rparr>"

text \<open>
  \<open>updateMicrophoneStatus\<close> (lines 448-460) is called with \<open>true\<close>, \<open>false\<close> or a string.
\<close>

datatype mic_status = MicBool bool | MicText string

fun updateMicrophoneStatus :: "mic_status \<Rightarrow> page \<Rightarrow> page" where
  "updateMicrophoneStatus (MicBool True) s =
     s\<lparr>micStatus_textContent := ''Active'', micStatus_color := ''var(--dg-primary, #13ef95)''\<rparr>"
| "updateMicrophoneStatus (MicBool False) s =
     s\<lparr>micStatus_textContent := ''Inactive'', micStatus_color := ''''\<rparr>"
| "updateMicrophoneStatus (MicText t) s =
     s\<lparr>micStatus_textContent := t, micStatus_color := ''''\<rparr>"

section \<open>The transcript (addTranscriptItem, lines 462-493)\<close>

text \<open>
  \<open>now\<close> is \<open>new Date().toLocaleTimeString()\<close>; \<open>isFinal\<close> is the truth value of the
  second argument, which the function only tests. \<open>replaceChild(item, lastItem)\<close> puts the
  new item where the last child was. The scroll position is not modelled.
\<close>

definition is_interim_item :: "container_child \<Rightarrow> bool" where
  "is_interim_item c = (case c of EmptyState \<Rightarrow> False | Item i \<Rightarrow> interim i)"

definition addTranscriptItem :: "string \<Rightarrow> jsval \<Rightarrow> bool \<Rightarrow> page \<Rightarrow> page" where
  "addTranscriptItem now txt isFinal s =
     (let s1 = (case emptyState_hidden s of
                  Some False \<Rightarrow> s\<lparr>emptyState_hidden := Some True\<rparr>
                | _ \<Rightarrow> s);
          item = Item \<lparr>interim = \<not> isFinal, timestamp = now, item_text = txt\<rparr>;
          children = transcriptContainer_children s1
      in if \<not> isFinal \<and> children \<noteq> [] \<and> last children \<noteq> EmptyState
            \<and> is_interim_item (last children)
         then s1\<lparr>transcriptContainer_children := butlast children @ [item]\<rparr>
         else s1\<lparr>transcriptContainer_children := children @ [item]\<rparr>)"

section \<open>Inbound frames (handleWebSocketMessage, lines 183-212)\<close>

text \<open>
  \<open>data\<close> is the outcome of \<open>JSON.parse(event.data)\<close>: \<open>None\<close> when the payload is not
  valid JSON and the call raises. Everything runs inside the \<open>try\<close>: the only other
  statement that can raise is the first read of \<open>data.type\<close>, when the payload is the
  JSON text \<open>null\<close>, and the counter has been incremented by then. Past that read
  \<open>data\<close> is neither \<open>null\<close> nor \<open>undefined\<close>, so its further properties are read with
  \<open>optional_get\<close>, which agrees with the plain read there.
\<close>

definition extract_transcript :: "jsval \<Rightarrow> jsval" where
  "extract_transcript d =
     js_or (js_or (optional_get (optional_get (optional_get (optional_get d ''channel'')
                      ''alternatives'') ''0'') ''transcript'')
                  (optional_get d ''transcript''))
           (JString '''')"

definition extract_isFinal :: "jsval \<Rightarrow> jsval" where
  "extract_isFinal d =
     js_or (js_or (optional_get d ''is_final'') (optional_get d ''speech_final'')) (JBool False)"

definition handleWebSocketMessage :: "jsval option \<Rightarrow> string \<Rightarrow> page \<Rightarrow> page" where
  "handleWebSocketMessage data now s =
     (case data of
        None \<Rightarrow> console_error ''Error parsing message:'' s
      | Some d \<Rightarrow>
          (let s1 = s\<lparr>stats_messages := stats_messages s + 1\<rparr>;
               s2 = s1\<lparr>messageCount_textContent := JNumber (of_nat (stats_messages s1))\<rparr>
           in (case get_property d ''type'' of
                 None \<Rightarrow> console_error ''Error parsing message:'' s2
               | Some ty \<Rightarrow>
                   (if ty = JString ''Results'' \<or> truthy (optional_get d ''channel'') then
                      (let transcript = extract_transcript d;
                           isFinal = extract_isFinal d
                       in if truthy transcript then
                            (let s3 = addTranscriptItem now transcript (truthy isFinal) s2
                             in if truthy isFinal then
                                  (let s4 = s3\<lparr>stats_finals := stats_finals s3 + 1\<rparr>
                                   in s4\<lparr>finalCount_textContent :=
                                          JNumber (of_nat (stats_finals s4))\<rparr>)
                                else s3)
                          else s2)
                    else if ty = JString ''Metadata'' then console_log ''Metadata:'' s2
                    else if truthy (optional_get d ''error'')
                         then console_error ''Deepgram error:'' s2
                    else s2))))"

section \<open>The channel (connect, lines 124-176; the other WebSocket handlers)\<close>

definition new_websocket :: "string \<Rightarrow> string \<Rightarrow> websocket" where
  "new_websocket m l =
     \<lparr>query = [(''model'', m), (''language'', l), (''encoding'', ''linear16''),
                (''sample_rate'', ''16000''), (''channels'', ''1'')],
      readyState = CONNECTING, sent = [], close_args = None\<rparr>"

text \<open>
  \<open>ctor_ok\<close> says whether \<open>new WebSocket(wsUrl)\<close> returns; when it raises, the \<open>catch\<close>
  runs. The new object is stored in the browser under the next free index, and
  \<open>state.ws\<close> refers to it.
\<close>

definition connect :: "bool \<Rightarrow> page \<Rightarrow> page" where
  "connect ctor_ok s =
     (if isConnected s then s
      else
        let s1 = s\<lparr>config_model := modelSelect_value s,
                   config_language := languageInput_value s\<rparr>;
            s2 = s1\<lparr>connectBtn_disabled := True,
                    connectBtn_children :=
                      [Elem ''i'' ''fa-solid fa-spinner fa-spin'', Text '' Connecting...'']\<rparr>;
            s3 = console_log ''Connecting with params:'' s2
        in if ctor_ok then
             s3\<lparr>sockets := sockets s3 @ [new_websocket (config_model s3) (config_language s3)],
                ws := Some (length (sockets s3))\<rparr>
           else resetConnectButton
                  (showError ''Failed to connect to server''
                     (console_error ''Connection error:'' s3)))"

text \<open>
  \<open>WebSocket.close\<close>: nothing on a socket that is closing or closed, otherwise the
  closing handshake starts.
\<close>

definition ws_close :: "nat \<Rightarrow> string \<Rightarrow> websocket \<Rightarrow> websocket" where
  "ws_close code reason w =
     (if readyState w = CLOSING \<or> readyState w = CLOSED then w
      else w\<lparr>readyState := CLOSING, close_args := Some (code, reason)\<rparr>)"

text \<open>\<open>WebSocket.send\<close> on an open socket.\<close>

definition ws_send :: "int list \<Rightarrow> websocket \<Rightarrow> websocket" where
  "ws_send frame w = w\<lparr>sent := sent w @ [frame]\<rparr>"

text \<open>An operation on the object a reference points to.\<close>

definition update_at :: "nat \<Rightarrow> ('a \<Rightarrow> 'a) \<Rightarrow> 'a list \<Rightarrow> 'a list" where
  "update_at i f xs = (if i < length xs then xs[i := f (xs ! i)] else xs)"

text \<open>\<open>disconnect\<close> (lines 278-313).\<close>

definition disconnect :: "page \<Rightarrow> page" where
  "disconnect s =
     (let s1 = (case ws s of
                  None \<Rightarrow> s
                | Some w \<Rightarrow>
                    s\<lparr>sockets := update_at w (ws_close 1000 ''User disconnected'') (sockets s),
                      ws := None\<rparr>);
          s2 = (case audioProcessor s1 of
                  None \<Rightarrow> s1
                | Some p \<Rightarrow>
                    s1\<lparr>processors := update_at p (\<lambda>n. n\<lparr>output_connected := False\<rparr>) (processors s1),
                       audioProcessor := None\<rparr>);
          s3 = (case mediaStream s2 of
                  None \<Rightarrow> s2
                | Some m \<Rightarrow>
                    s2\<lparr>streams := update_at m (map (\<lambda>track. Ended)) (streams s2),
                       mediaStream := None\<rparr>);
          s4 = s3\<lparr>isConnected := False\<rparr>;
          s5 = updateMicrophoneStatus (MicBool False)
                 (updateConnectionStatus False ''Disconnected'' s4);
          s6 = s5\<lparr>currentModel_textContent := ''-'', currentLanguage_textContent := ''-''\<rparr>;
          s7 = s6\<lparr>modelSelect_disabled := False, languageInput_disabled := False\<rparr>;
          s8 = s7\<lparr>transcriptContainer_hidden := True, disconnectContainer_hidden := True,
                    connectOverlay_hidden := False\<rparr>
      in resetConnectButton s8)"

text \<open>\<open>handleWebSocketError\<close> (lines 214-217).\<close>

definition handleWebSocketError :: "page \<Rightarrow> page" where
  "handleWebSocketError s = updateConnectionStatus False ''Error'' (console_error ''WebSocket error:'' s)"

text \<open>
  \<open>handleWebSocketClose\<close> (lines 219-234) and the callback it hands to \<open>setTimeout\<close>.
\<close>

definition handleWebSocketClose :: "page \<Rightarrow> page" where
  "handleWebSocketClose s =
     (let s1 = console_log ''WebSocket closed:'' s;
          s2 = s1\<lparr>isConnected := False\<rparr>;
          s3 = updateMicrophoneStatus (MicBool False)
                 (updateConnectionStatus False ''Disconnected'' s2)
      in s3\<lparr>timers := timers s3 + 1\<rparr>)"

definition reconnect_timeout :: "page \<Rightarrow> page" where
  "reconnect_timeout s =
     (if \<not> isConnected s then
        resetConnectButton
          (s\<lparr>transcriptContainer_hidden := True, disconnectContainer_hidden := True,
             connectOverlay_hidden := False\<rparr>)
      else s)"

section \<open>Audio (initializeAudioContext, startMicrophone, onConnected)\<close>

text \<open>
  \<open>initializeAudioContext\<close> (lines 331-349). The outcome of the constructor and of
  \<open>resume()\<close> is the browser's; the function catches both failures itself. When
  \<open>resume()\<close> is rejected the context has already been stored. Waiting for \<open>resume()\<close>
  is taken as one step with the call.
\<close>

datatype context_outcome = Created | ResumeRejected | ConstructorThrows

definition initializeAudioContext :: "context_outcome \<Rightarrow> page \<Rightarrow> page" where
  "initializeAudioContext r s =
     (if audioContext s then s
      else case r of
             Created \<Rightarrow> console_log ''Audio context initialized'' (s\<lparr>audioContext := True\<rparr>)
           | ResumeRejected \<Rightarrow>
               showError ''Failed to initialize audio system''
                 (console_error ''Failed to initialize audio context:'' (s\<lparr>audioContext := True\<rparr>))
           | ConstructorThrows \<Rightarrow>
               showError ''Failed to initialize audio system''
                 (console_error ''Failed to initialize audio context:'' s))"

text \<open>The end of the \<open>try\<close> block of \<open>onConnected\<close> (lines 262-268) and its \<open>catch\<close>.\<close>

definition onConnected_finish :: "page \<Rightarrow> page" where
  "onConnected_finish s =
     (let s1 = s\<lparr>connectOverlay_hidden := True, disconnectContainer_hidden := False,
                  transcriptContainer_hidden := False\<rparr>;
          s2 = updateConnectionStatus True ''Connected'' s1
      in console_log ''Fully connected - microphone active, ready to transcribe'' s2)"

definition onConnected_catch :: "page \<Rightarrow> page" where
  "onConnected_catch s =
     (let s1 = console_error ''Failed to initialize audio:'' s;
          s2 = s1\<lparr>isConnected := False\<rparr>;
          s3 = showError
                 ''Failed to access microphone. Please allow microphone access and try again.'' s2
      in disconnect s3)"

text \<open>
  \<open>startMicrophone\<close> (lines 355-421) up to the point where it waits for
  \<open>getUserMedia\<close>, followed by the rest of \<open>onConnected\<close> when it returns at once.
\<close>

definition startMicrophone_request :: "page \<Rightarrow> page" where
  "startMicrophone_request s =
     (if mediaStream s \<noteq> None then
        onConnected_finish (console_log ''Microphone already active'' s)
      else
        let s1 = updateMicrophoneStatus (MicText ''Requesting...'') s;
            s2 = console_log ''Requesting microphone access...'' s1
        in s2\<lparr>micRequests := micRequests s2 + 1\<rparr>)"

text \<open>
  \<open>startMicrophone\<close> after \<open>getUserMedia\<close> has granted a stream of \<open>n\<close> live tracks,
  followed by the rest of \<open>onConnected\<close>. With no audio context,
  \<open>state.audioContext.createMediaStreamSource\<close> raises and the \<open>catch\<close> of
  \<open>onConnected\<close> runs.
\<close>

definition startMicrophone_granted :: "nat \<Rightarrow> context_outcome \<Rightarrow> page \<Rightarrow> page" where
  "startMicrophone_granted n r s =
     (let s1 = s\<lparr>streams := streams s @ [replicate n Live],
                  mediaStream := Some (length (streams s))\<rparr>;
          s2 = console_log ''Microphone access granted'' s1;
          s3 = (if \<not> audioContext s2 then initializeAudioContext r s2 else s2)
      in if \<not> audioContext s3 then onConnected_catch s3
         else
           let s4 = s3\<lparr>processors := processors s3 @ [\<lparr>output_connected = True, audioChunkCount = 0\<rparr>],
                       audioProcessor := Some (length (processors s3))\<rparr>;
               s5 = console_log ''Audio processing pipeline connected'' s4;
               s6 = updateMicrophoneStatus (MicBool True) s5;
               s7 = console_log ''Microphone active - ready to transcribe'' s6
           in onConnected_finish s7)"

text \<open>\<open>onConnected\<close> (lines 240-276), from its start to the first point where it waits.\<close>

definition onConnected :: "context_outcome \<Rightarrow> page \<Rightarrow> page" where
  "onConnected r s =
     (let s1 = console_log ''WebSocket connected, requesting microphone...'' s;
          s2 = s1\<lparr>isConnected := True\<rparr>;
          s3 = updateConnectionStatus False ''Requesting microphone...'' s2;
          s4 = s3\<lparr>currentModel_textContent := config_model s3,
                  currentLanguage_textContent := config_language s3\<rparr>;
          s5 = s4\<lparr>modelSelect_disabled := True, languageInput_disabled := True\<rparr>
      in startMicrophone_request (initializeAudioContext r s5))"

text \<open>\<open>handleWebSocketOpen\<close> (lines 178-181).\<close>

definition handleWebSocketOpen :: "context_outcome \<Rightarrow> page \<Rightarrow> page" where
  "handleWebSocketOpen r s = onConnected r (console_log ''WebSocket connected'' s)"

text \<open>
  The handler \<open>onaudioprocess\<close> (lines 385-411) of processor \<open>p\<close>, whose closure holds
  the counter \<open>audioChunkCount\<close>. \<open>send\<close> does not raise on an open socket, so the inner
  \<open>catch\<close> is never entered.
\<close>

definition channel_open :: "page \<Rightarrow> bool" where
  "channel_open s =
     (case ws s of None \<Rightarrow> False
      | Some w \<Rightarrow> w < length (sockets s) \<and> readyState (sockets s ! w) = OPEN)"

definition onaudioprocess :: "nat \<Rightarrow> number list \<Rightarrow> page \<Rightarrow> page" where
  "onaudioprocess p inputData s =
     (if \<not> isConnected s then s
      else
        let pcm16 = convert_block inputData
        in if channel_open s then
             let s1 = s\<lparr>sockets := update_at (the (ws s)) (ws_send pcm16) (sockets s)\<rparr>
             in if p < length (processors s1) then
                  let n = audioChunkCount (processors s1 ! p) + 1;
                      s2 = s1\<lparr>processors :=
                               (processors s1)[p := (processors s1 ! p)\<lparr>audioChunkCount := n\<rparr>]\<rparr>
                  in if n = 1 then console_log ''First audio chunk sent'' s2
                     else if n mod 50 = 0 then console_log ''Sent audio chunks to server'' s2
                     else s2
                else s1
           else s)"

section \<open>Events\<close>

text \<open>
  What the browser delivers to the page, one event at a time. An event that the browser
  cannot deliver in the present state (a click on a disabled control, an event of a socket
  in the wrong \<open>readyState\<close>, a timer or a permission answer that is not pending, an audio
  block of a processor that does not exist) leaves the page as it is.
\<close>

datatype event =
    SelectModel string
  | TypeLanguage string
  | ClickConnect bool
  | ClickDisconnect
  | BeforeUnload
  | WsOpen nat context_outcome
  | WsMessage nat "jsval option" string
  | WsError nat
  | WsClose nat
  | ReconnectTimeout
  | MicGranted nat context_outcome
  | MicDenied
  | AudioProcess nat "number list"

definition socket_in :: "ready_state set \<Rightarrow> nat \<Rightarrow> page \<Rightarrow> bool" where
  "socket_in rs w s = (w < length (sockets s) \<and> readyState (sockets s ! w) \<in> rs)"

definition set_readyState :: "nat \<Rightarrow> ready_state \<Rightarrow> page \<Rightarrow> page" where
  "set_readyState w r s = s\<lparr>sockets := update_at w (\<lambda>x. x\<lparr>readyState := r\<rparr>) (sockets s)\<rparr>"

fun step :: "event \<Rightarrow> page \<Rightarrow> page" where
  "step (SelectModel v) s = (if modelSelect_disabled s then s else s\<lparr>modelSelect_value := v\<rparr>)"
| "step (TypeLanguage v) s =
     (if languageInput_disabled s then s else s\<lparr>languageInput_value := v\<rparr>)"
| "step (ClickConnect ctor_ok) s = (if connectBtn_disabled s then s else connect ctor_ok s)"
| "step ClickDisconnect s = disconnect s"
| "step BeforeUnload s = disconnect s"
| "step (WsOpen w r) s =
     (if socket_in {CONNECTING} w s then handleWebSocketOpen r (set_readyState w OPEN s) else s)"
| "step (WsMessage w data now) s =
     (if socket_in {OPEN} w s then handleWebSocketMessage data now s else s)"
| "step (WsError w) s =
     (if socket_in {CONNECTING, OPEN, CLOSING} w s then handleWebSocketError s else s)"
| "step (WsClose w) s =
     (if socket_in {CONNECTING, OPEN, CLOSING} w s
      then handleWebSocketClose (set_readyState w CLOSED s) else s)"
| "step ReconnectTimeout s =
     (if 0 < timers s then reconnect_timeout (s\<lparr>timers := timers s - 1\<rparr>) else s)"
| "step (MicGranted n r) s =
     (if 0 < micRequests s
      then startMicrophone_granted n r (s\<lparr>micRequests := micRequests s - 1\<rparr>) else s)"
| "step MicDenied s =
     (if 0 < micRequests s then onConnected_catch (s\<lparr>micRequests := micRequests s - 1\<rparr>) else s)"
| "step (AudioProcess p inputData) s =
     (if p < length (processors s) then onaudioprocess p inputData s else s)"

fun run :: "event list \<Rightarrow> page \<Rightarrow> page" where
  "run [] s = s"
| "run (e # es) s = run es (step e s)"


section \<open>Notions used in the statements\<close>

text \<open>
  The page once the script has been loaded: \<open>state\<close> as lines 11-25 initialise it, the
  console holding the message of line 503, no browser object yet. The markup (index.html) is not among the sources; the elements are
  taken in the presentation that \<open>disconnect\<close> renders, with the two inputs holding the
  defaults of \<open>state.config\<close>, and the empty-state element shown inside the transcript
  container.
\<close>

definition loaded_page :: page where
  "loaded_page =
     \<lparr>ws = None, isConnected = False, audioContext = False, mediaStream = None,
      audioProcessor = None, stats_messages = 0, stats_finals = 0,
      config_model = ''nova-3'', config_language = ''en'',
      modelSelect_value = ''nova-3'', modelSelect_disabled = False,
      languageInput_value = ''en'', languageInput_disabled = False,
      connectBtn_disabled = False,
      connectBtn_children = [Elem ''i'' ''fa-solid fa-plug'', Text '' Connect''],
      connectOverlay_hidden = False, disconnectContainer_hidden = True,
      transcriptContainer_hidden = True, transcriptContainer_children = [EmptyState],
      emptyState_hidden = Some False,
      connectionStatus_className = ''status-badge status-badge--disconnected'',
      connectionStatus_children =
        [Elem ''span'' ''status-indicator status-indicator--disconnected'', Text ''Disconnected''],
      micStatus_textContent = ''Inactive'', micStatus_color = [],
      currentModel_textContent = ''-'', currentLanguage_textContent = ''-'',
      messageCount_textContent = JNumber 0, finalCount_textContent = JNumber 0,
      sockets = [], streams = [], processors = [], alerts = [],
      console = [(ConsoleLog, ''Live Transcription frontend initialized'')],
      timers = 0, micRequests = 0\<rparr>"

text \<open>
  A parsed frame that takes the first branch of the handler
  (\<open>data.type === 'Results' || data.channel\<close>).
\<close>

definition result_frame :: "jsval \<Rightarrow> bool" where
  "result_frame d =
     (case get_property d ''type'' of
        None \<Rightarrow> False
      | Some ty \<Rightarrow> ty = JString ''Results'' \<or> truthy (optional_get d ''channel''))"

text \<open>The shape of the two frames in the scenario of the specification.\<close>

definition results_frame :: "string \<Rightarrow> bool \<Rightarrow> jsval" where
  "results_frame transcript is_final =
     JObject [(''type'', JString ''Results''),
              (''channel'', JObject [(''alternatives'',
                 JArray [JObject [(''transcript'', JString transcript)]])]),
              (''is_final'', JBool is_final)]"

text \<open>
  The two places a transcript is read from: \<open>data.channel?.alternatives?.[0]?.transcript\<close>
  and \<open>data.transcript\<close>.
\<close>

definition channel_transcript :: "jsval \<Rightarrow> jsval" where
  "channel_transcript d =
     optional_get (optional_get (optional_get (optional_get d ''channel'') ''alternatives'') ''0'')
       ''transcript''"

definition plain_transcript :: "jsval \<Rightarrow> jsval" where
  "plain_transcript d = optional_get d ''transcript''"

text \<open>
  A results frame whose \<open>is_final\<close> is false and whose \<open>speech_final\<close> is true, and a
  frame that carries only a transcript and \<open>is_final\<close>.
\<close>

definition speech_final_frame :: "string \<Rightarrow> jsval" where
  "speech_final_frame transcript =
     JObject [(''type'', JString ''Results''),
              (''channel'', JObject [(''alternatives'',
                 JArray [JObject [(''transcript'', JString transcript)]])]),
              (''is_final'', JBool False),
              (''speech_final'', JBool True)]"

definition bare_transcript_frame :: "string \<Rightarrow> jsval" where
  "bare_transcript_frame transcript =
     JObject [(''transcript'', JString transcript), (''is_final'', JBool True)]"

text \<open>No interim item is directly followed by another interim item.\<close>

fun no_adjacent_interim :: "container_child list \<Rightarrow> bool" where
  "no_adjacent_interim (x # y # r) =
     (\<not> (is_interim_item x \<and> is_interim_item y) \<and> no_adjacent_interim (y # r))"
| "no_adjacent_interim _ = True"

text \<open>
  Idle: no channel handle, no input handle, no processor, the flag down, and the page in
  its pre-connect presentation.
\<close>

definition disconnected_view :: "page \<Rightarrow> bool" where
  "disconnected_view s =
     (connectionStatus_className s = ''status-badge status-badge--disconnected''
      \<and> connectionStatus_children s =
          [Elem ''span'' ''status-indicator status-indicator--disconnected'', Text ''Disconnected'']
      \<and> micStatus_textContent s = ''Inactive'' \<and> micStatus_color s = []
      \<and> currentModel_textContent s = ''-'' \<and> currentLanguage_textContent s = ''-''
      \<and> \<not> modelSelect_disabled s \<and> \<not> languageInput_disabled s
      \<and> transcriptContainer_hidden s \<and> disconnectContainer_hidden s
      \<and> \<not> connectOverlay_hidden s
      \<and> \<not> connectBtn_disabled s
      \<and> connectBtn_children s = [Elem ''i'' ''fa-solid fa-plug'', Text '' Connect''])"

definition no_handles :: "page \<Rightarrow> bool" where
  "no_handles s = (ws s = None \<and> audioProcessor s = None \<and> mediaStream s = None)"

definition Idle :: "page \<Rightarrow> bool" where
  "Idle s = (no_handles s \<and> \<not> isConnected s \<and> disconnected_view s)"



text \<open>
  The page after a first successful connection: the click, the channel opening, the
  microphone granted with one track.
\<close>

definition streaming_page :: page where
  "streaming_page = run [ClickConnect True, WsOpen 0 Created, MicGranted 1 Created] loaded_page"

text \<open>
  That page after the user has disconnected and clicked connect again: the first socket
  is closing, the second is connecting.
\<close>

definition reconnecting_page :: page where
  "reconnecting_page = run [ClickDisconnect, ClickConnect True] streaming_page"





section \<open>Properties of the sample conversion\<close>

lemma clamp_sample_Finite: "clamp_sample (Finite r) = Finite (max (- 1) (min 1 r))"
  by (simp add: clamp_sample_def Math_min_def Math_max_def max_def min_def)

lemma clamp_sample_special:
  "clamp_sample NaN = NaN" "clamp_sample PosInfinity = Finite 1"
  "clamp_sample NegInfinity = Finite (- 1)"
  by (simp_all add: clamp_sample_def Math_min_def Math_max_def)

lemma wrap16_id: "- 32768 \<le> n \<Longrightarrow> n \<le> 32767 \<Longrightarrow> wrap16 n = n"
  by (simp add: wrap16_def)

lemma Math_trunc_mono: "x \<le> y \<Longrightarrow> Math_trunc x \<le> Math_trunc y"
proof -
  assume xy: "x \<le> y"
  show ?thesis
  proof (cases "x < 0")
    case xneg: True
    show ?thesis
    proof (cases "y < 0")
      case True
      with xneg xy show ?thesis by (simp add: Math_trunc_def ceiling_mono)
    next
      case False
      have "\<lceil>x\<rceil> \<le> 0" using xneg by (simp add: ceiling_le_iff)
      moreover have "0 \<le> \<lfloor>y\<rfloor>" using False by simp
      moreover have "Math_trunc x = \<lceil>x\<rceil>" "Math_trunc y = \<lfloor>y\<rfloor>"
        using xneg False by (simp_all add: Math_trunc_def)
      ultimately show ?thesis by linarith
    qed
  next
    case False
    with xy show ?thesis by (simp add: Math_trunc_def floor_mono)
  qed
qed

lemma Math_trunc_of_int: "Math_trunc (of_int n) = n"
  by (simp add: Math_trunc_def)

lemma scaled_mono: "a \<le> b \<Longrightarrow> scaled a \<le> scaled b"
proof -
  assume ab: "a \<le> b"
  show ?thesis
  proof (cases "a < 0")
    case aneg: True
    show ?thesis
    proof (cases "b < 0")
      case True
      with aneg ab show ?thesis by (simp add: scaled_def)
    next
      case False
      have "a * 32768 \<le> 0" using aneg by simp
      moreover have "0 \<le> b * 32767" using False by simp
      ultimately show ?thesis using aneg False by (simp add: scaled_def)
    qed
  next
    case False
    with ab show ?thesis by (simp add: scaled_def)
  qed
qed

lemma scaled_bounds:
  assumes "- 1 \<le> c" "c \<le> 1"
  shows "- 32768 \<le> Math_trunc (scaled c)" "Math_trunc (scaled c) \<le> 32767"
proof -
  have lo: "scaled (- 1) = of_int (- 32768)" and hi: "scaled 1 = of_int 32767"
    by (simp_all add: scaled_def)
  have "Math_trunc (scaled (- 1)) \<le> Math_trunc (scaled c)"
    by (rule Math_trunc_mono [OF scaled_mono [OF assms(1)]])
  then show "- 32768 \<le> Math_trunc (scaled c)"
    unfolding lo Math_trunc_of_int by simp
  have "Math_trunc (scaled c) \<le> Math_trunc (scaled 1)"
    by (rule Math_trunc_mono [OF scaled_mono [OF assms(2)]])
  then show "Math_trunc (scaled c) \<le> 32767"
    unfolding hi Math_trunc_of_int by simp
qed

lemma sample_to_pcm16_Finite:
  "sample_to_pcm16 (Finite r) = Math_trunc (scaled (max (- 1) (min 1 r)))"
proof -
  let ?c = "max (- 1) (min 1 r)"
  have c: "- 1 \<le> ?c" "?c \<le> 1" by simp_all
  have "sample_to_pcm16 (Finite r) = wrap16 (Math_trunc (scaled ?c))"
    by (cases "?c < 0")
      (simp_all only: sample_to_pcm16_def clamp_sample_Finite scaled_def Let_def
        less_than.simps times_const.simps ToInt16.simps if_True if_False)
  also have "\<dots> = Math_trunc (scaled ?c)"
    by (rule wrap16_id [OF scaled_bounds [OF c]])
  finally show ?thesis .
qed

lemma sample_to_pcm16_clamped: "sample_to_pcm16 (clamp_sample x) = sample_to_pcm16 x"
proof (cases x)
  case (Finite r)
  have "max (- 1) (min 1 (max (- 1) (min 1 r))) = max (- 1) (min 1 r)" by simp
  then show ?thesis
    by (simp only: Finite clamp_sample_Finite sample_to_pcm16_Finite)
next
  case NaN
  then show ?thesis by (simp add: clamp_sample_special)
next
  case NegInfinity
  have "sample_to_pcm16 (Finite (- 1)) = sample_to_pcm16 NegInfinity"
    by (simp add: sample_to_pcm16_def clamp_sample_special clamp_sample_Finite)
  then show ?thesis by (simp add: NegInfinity clamp_sample_special)
next
  case PosInfinity
  have "sample_to_pcm16 (Finite 1) = sample_to_pcm16 PosInfinity"
    by (simp add: sample_to_pcm16_def clamp_sample_special clamp_sample_Finite)
  then show ?thesis by (simp add: PosInfinity clamp_sample_special)
qed

text \<open>
  C5. For a finite sample the converter clamps to \<open>[-1, 1]\<close> and stores the product with
  32767 (clamped \<open>s \<ge> 0\<close>) or 32768 (otherwise) truncated towards zero; NaN is stored as 0,
  the value stored for the sample 0; and every sample is stored as its clamped value is
  (2.0 as 1.0).
\<close>

theorem sample_conversion_truncates:
  "sample_to_pcm16 (Finite r) =
     (let s = max (- 1) (min 1 r)
      in if 0 \<le> s then Math_trunc (s * 32767) else Math_trunc (s * 32768))
   \<and> sample_to_pcm16 NaN = 0
   \<and> sample_to_pcm16 NaN = sample_to_pcm16 (Finite 0)
   \<and> sample_to_pcm16 x = sample_to_pcm16 (clamp_sample x)
   \<and> sample_to_pcm16 (Finite 2) = sample_to_pcm16 (Finite 1)"
proof -
  have a: "sample_to_pcm16 (Finite r) =
     (let s = max (- 1) (min 1 r)
      in if 0 \<le> s then Math_trunc (s * 32767) else Math_trunc (s * 32768))"
    by (simp only: sample_to_pcm16_Finite scaled_def Let_def not_le [symmetric] if_not_P if_P split: if_splits) auto
  have b: "sample_to_pcm16 NaN = 0"
    by (simp add: sample_to_pcm16_def clamp_sample_special)
  have c: "sample_to_pcm16 (Finite 0) = 0"
    by (simp add: sample_to_pcm16_Finite scaled_def Math_trunc_def)
  have d: "sample_to_pcm16 (Finite 2) = sample_to_pcm16 (Finite 1)"
    by (simp add: sample_to_pcm16_Finite)
  show ?thesis using a b c d sample_to_pcm16_clamped [of x] by simp
qed

text \<open>
  C5, as the specification words it with rounding, fails at the sample 0.25:
  \<open>0.25 * 32767 = 8191.75\<close> is stored as 8191, and rounds to 8192.
\<close>

theorem sample_conversion_rounding_counterexample:
  "sample_to_pcm16 (Finite (1 / 4)) = 8191 \<and> spec_sample_converter (Finite (1 / 4)) = 8192"
  by (simp add: sample_to_pcm16_Finite scaled_def Math_trunc_def spec_sample_converter_def
      spec_clamp_def round_def)

text \<open>
  C6. For every sample in \<open>[-1, 1]\<close> the stored value lies in \<open>[-32768, 32767]\<close>, and the
  conversion is monotone on \<open>[-1, 1]\<close>.
\<close>

theorem sample_conversion_range_monotone:
  "(- 1 \<le> s \<and> s \<le> 1 \<longrightarrow>
      - 32768 \<le> sample_to_pcm16 (Finite s) \<and> sample_to_pcm16 (Finite s) \<le> 32767)
   \<and> (- 1 \<le> s1 \<and> s1 \<le> s2 \<and> s2 \<le> 1 \<longrightarrow>
      sample_to_pcm16 (Finite s1) \<le> sample_to_pcm16 (Finite s2))"
proof (intro conjI impI)
  assume s: "- 1 \<le> s \<and> s \<le> 1"
  then have "max (- 1) (min 1 s) = s" by simp
  with scaled_bounds [of s] s
  show "- 32768 \<le> sample_to_pcm16 (Finite s)" "sample_to_pcm16 (Finite s) \<le> 32767"
    by (simp_all add: sample_to_pcm16_Finite)
next
  assume h: "- 1 \<le> s1 \<and> s1 \<le> s2 \<and> s2 \<le> 1"
  then have "max (- 1) (min 1 s1) = s1" "max (- 1) (min 1 s2) = s2" by simp_all
  moreover have "Math_trunc (scaled s1) \<le> Math_trunc (scaled s2)"
    using h by (intro Math_trunc_mono scaled_mono) simp
  ultimately show "sample_to_pcm16 (Finite s1) \<le> sample_to_pcm16 (Finite s2)"
    by (simp add: sample_to_pcm16_Finite)
qed

theorem sample_conversion_range_monotone_witness:
  "((- 1 :: real) \<le> 1 / 4 \<and> (1 / 4 :: real) \<le> 1)
   \<and> - 32768 \<le> sample_to_pcm16 (Finite (1 / 4)) \<and> sample_to_pcm16 (Finite (1 / 4)) \<le> 32767
   \<and> ((- 1 :: real) \<le> - 1 / 2 \<and> (- 1 / 2 :: real) \<le> 1 / 4 \<and> (1 / 4 :: real) \<le> 1)
   \<and> sample_to_pcm16 (Finite (- 1 / 2)) \<le> sample_to_pcm16 (Finite (1 / 4))"
  using sample_conversion_range_monotone [of "1 / 4" "- 1 / 2" "1 / 4"] by simp

section \<open>What each handler leaves alone\<close>

lemmas ui_defs = console_log_def console_error_def showError_def resetConnectButton_def
  updateConnectionStatus_def

lemma sent_update_at:
  "(\<And>x. sent (f x) = sent x) \<Longrightarrow> map sent (update_at w f xs) = map sent xs"
  by (simp add: update_at_def map_update list_update_same_conv)

lemma sent_ws_close: "sent (ws_close c r x) = sent x"
  by (simp add: ws_close_def)

lemma updateMicrophoneStatus_keeps:
  "stats_messages (updateMicrophoneStatus m s) = stats_messages s"
  "stats_finals (updateMicrophoneStatus m s) = stats_finals s"
  "transcriptContainer_children (updateMicrophoneStatus m s) = transcriptContainer_children s"
  "sockets (updateMicrophoneStatus m s) = sockets s"
  "ws (updateMicrophoneStatus m s) = ws s"
  "isConnected (updateMicrophoneStatus m s) = isConnected s"
  "mediaStream (updateMicrophoneStatus m s) = mediaStream s"
  "audioProcessor (updateMicrophoneStatus m s) = audioProcessor s"
  "audioContext (updateMicrophoneStatus m s) = audioContext s"
  by (induct m s rule: updateMicrophoneStatus.induct) simp_all

lemma disconnect_keeps:
  "stats_messages (disconnect s) = stats_messages s"
  "stats_finals (disconnect s) = stats_finals s"
  "transcriptContainer_children (disconnect s) = transcriptContainer_children s"
  "map sent (sockets (disconnect s)) = map sent (sockets s)"
  "ws (disconnect s) = None"
  "isConnected (disconnect s) = False"
  by (simp_all add: disconnect_def ui_defs updateMicrophoneStatus_keeps Let_def
      sent_update_at sent_ws_close split: option.splits)

lemma connect_keeps:
  "stats_messages (connect ok s) = stats_messages s"
  "stats_finals (connect ok s) = stats_finals s"
  "transcriptContainer_children (connect ok s) = transcriptContainer_children s"
  "concat (map sent (sockets (connect ok s))) = concat (map sent (sockets s))"
  "isConnected (connect ok s) = isConnected s"
  by (simp_all add: connect_def ui_defs Let_def new_websocket_def)

lemma initializeAudioContext_keeps:
  "stats_messages (initializeAudioContext r s) = stats_messages s"
  "stats_finals (initializeAudioContext r s) = stats_finals s"
  "transcriptContainer_children (initializeAudioContext r s) = transcriptContainer_children s"
  "sockets (initializeAudioContext r s) = sockets s"
  "ws (initializeAudioContext r s) = ws s"
  "isConnected (initializeAudioContext r s) = isConnected s"
  "mediaStream (initializeAudioContext r s) = mediaStream s"
  by (simp_all add: initializeAudioContext_def ui_defs split: context_outcome.splits)

lemma onConnected_finish_keeps:
  "stats_messages (onConnected_finish s) = stats_messages s"
  "stats_finals (onConnected_finish s) = stats_finals s"
  "transcriptContainer_children (onConnected_finish s) = transcriptContainer_children s"
  "sockets (onConnected_finish s) = sockets s"
  "ws (onConnected_finish s) = ws s"
  "isConnected (onConnected_finish s) = isConnected s"
  by (simp_all add: onConnected_finish_def ui_defs Let_def)

lemma onConnected_catch_keeps:
  "stats_messages (onConnected_catch s) = stats_messages s"
  "stats_finals (onConnected_catch s) = stats_finals s"
  "transcriptContainer_children (onConnected_catch s) = transcriptContainer_children s"
  "map sent (sockets (onConnected_catch s)) = map sent (sockets s)"
  "ws (onConnected_catch s) = None"
  "isConnected (onConnected_catch s) = False"
  by (simp_all add: onConnected_catch_def ui_defs Let_def disconnect_keeps)

lemma startMicrophone_request_keeps:
  "stats_messages (startMicrophone_request s) = stats_messages s"
  "stats_finals (startMicrophone_request s) = stats_finals s"
  "transcriptContainer_children (startMicrophone_request s) = transcriptContainer_children s"
  "sockets (startMicrophone_request s) = sockets s"
  "ws (startMicrophone_request s) = ws s"
  "isConnected (startMicrophone_request s) = isConnected s"
  by (simp_all add: startMicrophone_request_def ui_defs Let_def onConnected_finish_keeps
      updateMicrophoneStatus_keeps)

lemma handleWebSocketOpen_keeps:
  "stats_messages (handleWebSocketOpen r s) = stats_messages s"
  "stats_finals (handleWebSocketOpen r s) = stats_finals s"
  "transcriptContainer_children (handleWebSocketOpen r s) = transcriptContainer_children s"
  "sockets (handleWebSocketOpen r s) = sockets s"
  "ws (handleWebSocketOpen r s) = ws s"
  "isConnected (handleWebSocketOpen r s) = True"
  by (simp_all add: handleWebSocketOpen_def onConnected_def ui_defs Let_def
      startMicrophone_request_keeps initializeAudioContext_keeps)

lemma startMicrophone_granted_keeps:
  "stats_messages (startMicrophone_granted n r s) = stats_messages s"
  "stats_finals (startMicrophone_granted n r s) = stats_finals s"
  "transcriptContainer_children (startMicrophone_granted n r s) = transcriptContainer_children s"
  "map sent (sockets (startMicrophone_granted n r s)) = map sent (sockets s)"
  "ws s = None \<Longrightarrow> ws (startMicrophone_granted n r s) = None"
  "\<not> isConnected s \<Longrightarrow> \<not> isConnected (startMicrophone_granted n r s)"
  by (simp_all add: startMicrophone_granted_def ui_defs Let_def onConnected_catch_keeps
      onConnected_finish_keeps initializeAudioContext_keeps updateMicrophoneStatus_keeps)

lemma handleWebSocketError_keeps:
  "stats_messages (handleWebSocketError s) = stats_messages s"
  "stats_finals (handleWebSocketError s) = stats_finals s"
  "transcriptContainer_children (handleWebSocketError s) = transcriptContainer_children s"
  "sockets (handleWebSocketError s) = sockets s"
  "ws (handleWebSocketError s) = ws s"
  "isConnected (handleWebSocketError s) = isConnected s"
  by (simp_all add: handleWebSocketError_def ui_defs)

lemma handleWebSocketClose_keeps:
  "stats_messages (handleWebSocketClose s) = stats_messages s"
  "stats_finals (handleWebSocketClose s) = stats_finals s"
  "transcriptContainer_children (handleWebSocketClose s) = transcriptContainer_children s"
  "sockets (handleWebSocketClose s) = sockets s"
  "ws (handleWebSocketClose s) = ws s"
  "isConnected (handleWebSocketClose s) = False"
  by (simp_all add: handleWebSocketClose_def ui_defs Let_def updateMicrophoneStatus_keeps)

lemma reconnect_timeout_keeps:
  "stats_messages (reconnect_timeout s) = stats_messages s"
  "stats_finals (reconnect_timeout s) = stats_finals s"
  "transcriptContainer_children (reconnect_timeout s) = transcriptContainer_children s"
  "sockets (reconnect_timeout s) = sockets s"
  "ws (reconnect_timeout s) = ws s"
  "isConnected (reconnect_timeout s) = isConnected s"
  by (simp_all add: reconnect_timeout_def ui_defs)

lemma set_readyState_keeps:
  "stats_messages (set_readyState w r s) = stats_messages s"
  "stats_finals (set_readyState w r s) = stats_finals s"
  "transcriptContainer_children (set_readyState w r s) = transcriptContainer_children s"
  "map sent (sockets (set_readyState w r s)) = map sent (sockets s)"
  "ws (set_readyState w r s) = ws s"
  "isConnected (set_readyState w r s) = isConnected s"
  by (simp_all add: set_readyState_def sent_update_at)

lemma onaudioprocess_keeps:
  "stats_messages (onaudioprocess p f s) = stats_messages s"
  "stats_finals (onaudioprocess p f s) = stats_finals s"
  "transcriptContainer_children (onaudioprocess p f s) = transcriptContainer_children s"
  "ws (onaudioprocess p f s) = ws s"
  "isConnected (onaudioprocess p f s) = isConnected s"
  by (simp_all add: onaudioprocess_def ui_defs Let_def)


lemma addTranscriptItem_keeps:
  "stats_messages (addTranscriptItem now t f s) = stats_messages s"
  "stats_finals (addTranscriptItem now t f s) = stats_finals s"
  "sockets (addTranscriptItem now t f s) = sockets s"
  "ws (addTranscriptItem now t f s) = ws s"
  "isConnected (addTranscriptItem now t f s) = isConnected s"
  by (simp_all add: addTranscriptItem_def Let_def split: option.splits bool.splits)

lemma addTranscriptItem_children:
  "transcriptContainer_children (addTranscriptItem now t f s) =
     (let cs = transcriptContainer_children s;
          new = Item \<lparr>interim = \<not> f, timestamp = now, item_text = t\<rparr>
      in if \<not> f \<and> cs \<noteq> [] \<and> is_interim_item (last cs) then butlast cs @ [new]
         else cs @ [new])"
  by (auto simp add: addTranscriptItem_def Let_def is_interim_item_def
      split: option.splits bool.splits)

lemma handleWebSocketMessage_keeps:
  "sockets (handleWebSocketMessage data now s) = sockets s"
  "ws (handleWebSocketMessage data now s) = ws s"
  "isConnected (handleWebSocketMessage data now s) = isConnected s"
  "stats_messages s \<le> stats_messages (handleWebSocketMessage data now s)"
  "stats_finals s \<le> stats_finals (handleWebSocketMessage data now s)"
  by (simp_all add: handleWebSocketMessage_def ui_defs Let_def addTranscriptItem_keeps
      split: option.splits)

lemmas keeps = disconnect_keeps connect_keeps onConnected_catch_keeps handleWebSocketOpen_keeps
  startMicrophone_granted_keeps handleWebSocketError_keeps handleWebSocketClose_keeps
  reconnect_timeout_keeps set_readyState_keeps onaudioprocess_keeps handleWebSocketMessage_keeps

lemma stats_step:
  "stats_messages s \<le> stats_messages (step e s) \<and> stats_finals s \<le> stats_finals (step e s)"
  by (cases e) (simp_all add: keeps)




section \<open>Runs\<close>

lemma run_append: "run (xs @ ys) s = run ys (run xs s)"
  by (induction xs arbitrary: s) simp_all

lemma stats_run:
  "stats_messages s \<le> stats_messages (run evs s) \<and> stats_finals s \<le> stats_finals (run evs s)"
proof (induction evs arbitrary: s)
  case Nil
  show ?case by simp
next
  case (Cons e evs)
  from stats_step [of s e] Cons.IH [of "step e s"] show ?case by simp
qed

lemmas eval_defs = connect_def disconnect_def handleWebSocketOpen_def onConnected_def
  startMicrophone_request_def startMicrophone_granted_def onConnected_finish_def onConnected_catch_def
  initializeAudioContext_def handleWebSocketMessage_def addTranscriptItem_def handleWebSocketClose_def
  handleWebSocketError_def reconnect_timeout_def onaudioprocess_def console_log_def console_error_def
  showError_def resetConnectButton_def updateConnectionStatus_def set_readyState_def
  Let_def extract_transcript_def extract_isFinal_def optional_get_def js_or_def
  results_frame_def result_frame_def update_at_def ws_close_def ws_send_def channel_open_def
  new_websocket_def socket_in_def is_interim_item_def convert_block_def loaded_page_def

lemmas message_defs = handleWebSocketMessage_def addTranscriptItem_def console_log_def
  console_error_def Let_def extract_transcript_def extract_isFinal_def optional_get_def
  js_or_def results_frame_def socket_in_def is_interim_item_def

lemma streaming_page_eq:
  "streaming_page =
     \<lparr>ws = Some 0, isConnected = True, audioContext = True, mediaStream = Some 0,
      audioProcessor = Some 0, stats_messages = 0, stats_finals = 0,
      config_model = ''nova-3'', config_language = ''en'',
      modelSelect_value = ''nova-3'', modelSelect_disabled = True,
      languageInput_value = ''en'', languageInput_disabled = True,
      connectBtn_disabled = True,
      connectBtn_children = [Elem ''i'' ''fa-solid fa-spinner fa-spin'', Text '' Connecting...''],
      connectOverlay_hidden = True, disconnectContainer_hidden = False,
      transcriptContainer_hidden = False, transcriptContainer_children = [EmptyState],
      emptyState_hidden = Some False,
      connectionStatus_className = ''status-badge status-badge--connected'',
      connectionStatus_children =
        [Elem ''span'' ''status-indicator status-indicator--connected'', Text ''Connected''],
      micStatus_textContent = ''Active'', micStatus_color = ''var(--dg-primary, #13ef95)'',
      currentModel_textContent = ''nova-3'', currentLanguage_textContent = ''en'',
      messageCount_textContent = JNumber 0, finalCount_textContent = JNumber 0,
      sockets =
        [\<lparr>query = [(''model'', ''nova-3''), (''language'', ''en''), (''encoding'', ''linear16''),
                    (''sample_rate'', ''16000''), (''channels'', ''1'')],
          readyState = OPEN, sent = [], close_args = None\<rparr>],
      streams = [[Live]],
      processors = [\<lparr>output_connected = True, audioChunkCount = 0\<rparr>],
      alerts = [],
      console =
        [(ConsoleLog, ''Live Transcription frontend initialized''),
         (ConsoleLog, ''Connecting with params:''),
         (ConsoleLog, ''WebSocket connected''),
         (ConsoleLog, ''WebSocket connected, requesting microphone...''),
         (ConsoleLog, ''Audio context initialized''),
         (ConsoleLog, ''Requesting microphone access...''),
         (ConsoleLog, ''Microphone access granted''),
         (ConsoleLog, ''Audio processing pipeline connected''),
         (ConsoleLog, ''Microphone active - ready to transcribe''),
         (ConsoleLog, ''Fully connected - microphone active, ready to transcribe'')],
      timers = 0, micRequests = 0\<rparr>"
  by (simp add: streaming_page_def eval_defs)

section \<open>Inbound frames\<close>

text \<open>
  C8. A frame whose payload is not valid JSON is logged and dropped: the handler returns
  the page with one more console error and nothing else changed, so the message counter,
  the counter of final results and the transcript are as before.
\<close>

theorem malformed_frame_dropped:
  "handleWebSocketMessage None now s =
     s\<lparr>console := console s @ [(ConsoleError, ''Error parsing message:'')]\<rparr>
   \<and> stats_messages (handleWebSocketMessage None now s) = stats_messages s
   \<and> stats_finals (handleWebSocketMessage None now s) = stats_finals s
   \<and> transcriptContainer_children (handleWebSocketMessage None now s) =
       transcriptContainer_children s"
  by (simp add: handleWebSocketMessage_def console_error_def)

text \<open>
  C10. A parsed result frame whose extracted transcript is the empty string renders no
  entry and does not count as a final result, whatever \<open>is_final\<close> says, while the message
  counter goes up by one; and the message counter goes up by one for every parsed frame,
  of whatever shape.
\<close>

theorem empty_transcript_not_rendered:
  "(result_frame d \<and> extract_transcript d = JString [] \<longrightarrow>
      transcriptContainer_children (handleWebSocketMessage (Some d) now s) =
        transcriptContainer_children s
      \<and> stats_finals (handleWebSocketMessage (Some d) now s) = stats_finals s
      \<and> stats_messages (handleWebSocketMessage (Some d) now s) = stats_messages s + 1)
   \<and> stats_messages (handleWebSocketMessage (Some d') now s) = stats_messages s + 1"
proof -
  have "stats_messages (handleWebSocketMessage (Some d') now s) = stats_messages s + 1"
    by (simp add: handleWebSocketMessage_def ui_defs Let_def addTranscriptItem_keeps
        split: option.splits)
  moreover have "result_frame d \<and> extract_transcript d = JString [] \<longrightarrow>
      transcriptContainer_children (handleWebSocketMessage (Some d) now s) =
        transcriptContainer_children s
      \<and> stats_finals (handleWebSocketMessage (Some d) now s) = stats_finals s
      \<and> stats_messages (handleWebSocketMessage (Some d) now s) = stats_messages s + 1"
    by (auto simp add: handleWebSocketMessage_def result_frame_def ui_defs Let_def
        split: option.splits)
  ultimately show ?thesis by simp
qed

theorem empty_transcript_not_rendered_witness:
  "result_frame (results_frame [] True)
   \<and> extract_transcript (results_frame [] True) = JString []
   \<and> transcriptContainer_children
       (handleWebSocketMessage (Some (results_frame [] True)) ''10:00:00'' loaded_page) =
       [EmptyState]
   \<and> stats_finals
       (handleWebSocketMessage (Some (results_frame [] True)) ''10:00:00'' loaded_page) = 0
   \<and> stats_messages
       (handleWebSocketMessage (Some (results_frame [] True)) ''10:00:00'' loaded_page) = 1
   \<and> stats_messages
       (handleWebSocketMessage (Some (JObject [(''type'', JString ''Metadata'')])) ''10:00:00''
          loaded_page) = 1"
  using empty_transcript_not_rendered
    [of "results_frame [] True" "''10:00:00''" loaded_page
        "JObject [(''type'', JString ''Metadata'')]"]
  by (simp add: eval_defs)

lemma isFinal_either_flag:
  "truthy (extract_isFinal d) =
     (truthy (optional_get d ''is_final'') \<or> truthy (optional_get d ''speech_final''))"
  by (simp add: extract_isFinal_def js_or_def)

lemma transcript_first_truthy:
  "extract_transcript d =
     (if truthy (channel_transcript d) then channel_transcript d
      else if truthy (plain_transcript d) then plain_transcript d else JString [])"
  by (simp add: extract_transcript_def channel_transcript_def plain_transcript_def js_or_def)

text \<open>
  C2. A frame the handler accepts as a result (its \<open>type\<close> is \<open>Results\<close>, or it has a
  truthy \<open>channel\<close>) with a non-empty transcript counts as final when \<open>is_final\<close> or
  \<open>speech_final\<close> is truthy, and as interim otherwise. An interim frame takes the place of
  the last entry exactly when that entry is interim, and is appended otherwise; a final
  frame is appended, and every earlier entry stays. A frame the handler does not accept as
  a result renders nothing and counts no final result, whatever it carries.
\<close>

theorem result_frame_final_by_either_flag:
  "(result_frame d \<and> (truthy (channel_transcript d) \<or> truthy (plain_transcript d)) \<longrightarrow>
      transcriptContainer_children (handleWebSocketMessage (Some d) now s) =
       (let cs = transcriptContainer_children s;
            final = (truthy (optional_get d ''is_final'')
                     \<or> truthy (optional_get d ''speech_final''));
            new = Item \<lparr>interim = \<not> final, timestamp = now,
                        item_text = (if truthy (channel_transcript d) then channel_transcript d
                                     else plain_transcript d)\<rparr>
        in if final then cs @ [new]
           else if cs \<noteq> [] \<and> is_interim_item (last cs) then butlast cs @ [new]
           else cs @ [new]))
   \<and> (\<not> result_frame d \<longrightarrow>
        transcriptContainer_children (handleWebSocketMessage (Some d) now s) =
          transcriptContainer_children s
        \<and> stats_finals (handleWebSocketMessage (Some d) now s) = stats_finals s)"
proof (intro conjI impI)
  assume h: "result_frame d \<and> (truthy (channel_transcript d) \<or> truthy (plain_transcript d))"
  then have t: "truthy (extract_transcript d)"
    and e: "extract_transcript d =
      (if truthy (channel_transcript d) then channel_transcript d else plain_transcript d)"
    by (auto simp add: transcript_first_truthy)
  from h t show "transcriptContainer_children (handleWebSocketMessage (Some d) now s) =
       (let cs = transcriptContainer_children s;
            final = (truthy (optional_get d ''is_final'')
                     \<or> truthy (optional_get d ''speech_final''));
            new = Item \<lparr>interim = \<not> final, timestamp = now,
                        item_text = (if truthy (channel_transcript d) then channel_transcript d
                                     else plain_transcript d)\<rparr>
        in if final then cs @ [new]
           else if cs \<noteq> [] \<and> is_interim_item (last cs) then butlast cs @ [new]
           else cs @ [new])"
    unfolding e [symmetric] isFinal_either_flag [symmetric]
    by (auto simp add: handleWebSocketMessage_def result_frame_def ui_defs Let_def
        addTranscriptItem_children split: option.splits)
next
  assume "\<not> result_frame d"
  then show "transcriptContainer_children (handleWebSocketMessage (Some d) now s) =
          transcriptContainer_children s"
    and "stats_finals (handleWebSocketMessage (Some d) now s) = stats_finals s"
    by (auto simp add: handleWebSocketMessage_def result_frame_def ui_defs Let_def
        split: option.splits)
qed

theorem result_frame_final_by_either_flag_witness:
  "(result_frame (results_frame ''hello'' False)
      \<and> truthy (channel_transcript (results_frame ''hello'' False)))
   \<and> transcriptContainer_children
       (handleWebSocketMessage (Some (results_frame ''hello'' False)) ''10:00:01''
          (handleWebSocketMessage (Some (results_frame ''he'' False)) ''10:00:00'' loaded_page)) =
       [EmptyState,
        Item \<lparr>interim = True, timestamp = ''10:00:01'', item_text = JString ''hello''\<rparr>]
   \<and> \<not> result_frame (bare_transcript_frame ''hi'')
   \<and> transcriptContainer_children
       (handleWebSocketMessage (Some (bare_transcript_frame ''hi'')) ''10:00:00'' loaded_page) =
       transcriptContainer_children loaded_page"
  using result_frame_final_by_either_flag
    [of "results_frame ''hello'' False" "''10:00:01''"
        "handleWebSocketMessage (Some (results_frame ''he'' False)) ''10:00:00'' loaded_page"]
    result_frame_final_by_either_flag
    [of "bare_transcript_frame ''hi''" "''10:00:00''" loaded_page]
  by (simp add: eval_defs channel_transcript_def plain_transcript_def
      bare_transcript_frame_def)

text \<open>
  C2, as the specification words it, fails twice. A results frame with \<open>is_final\<close> false
  and \<open>speech_final\<close> true, arriving after an interim entry, does not replace that entry:
  it is appended as a final entry. And a final frame that carries only \<open>transcript\<close> and
  \<open>is_final\<close> is not appended: the handler does not take it for a result.
\<close>

theorem speech_final_appended_counterexample:
  "transcriptContainer_children
       (handleWebSocketMessage (Some (speech_final_frame ''hello'')) ''10:00:01''
          (handleWebSocketMessage (Some (results_frame ''he'' False)) ''10:00:00'' loaded_page)) =
       [EmptyState,
        Item \<lparr>interim = True, timestamp = ''10:00:00'', item_text = JString ''he''\<rparr>,
        Item \<lparr>interim = False, timestamp = ''10:00:01'', item_text = JString ''hello''\<rparr>]
   \<and> transcriptContainer_children
       (handleWebSocketMessage (Some (bare_transcript_frame ''hi'')) ''10:00:00'' loaded_page) =
       [EmptyState]
   \<and> stats_finals
       (handleWebSocketMessage (Some (bare_transcript_frame ''hi'')) ''10:00:00'' loaded_page) = 0"
  by (simp add: eval_defs speech_final_frame_def bare_transcript_frame_def)

section \<open>Session counters\<close>

text \<open>
  C3. Over the events of the page the two counters never decrease, and \<open>connect\<close> leaves
  both as they are: nothing resets them.
\<close>

theorem counters_monotone_never_reset:
  "stats_messages (run evs s) \<le> stats_messages (run (evs @ later) s)
   \<and> stats_finals (run evs s) \<le> stats_finals (run (evs @ later) s)
   \<and> stats_messages (connect ctor_ok s) = stats_messages s
   \<and> stats_finals (connect ctor_ok s) = stats_finals s"
  using stats_run [of "run evs s" later] by (simp add: run_append connect_keeps)

text \<open>
  C3, as the specification words it, fails: after a session that received one final
  result, a disconnect and a new successful \<open>connect\<close> (\<open>state.ws\<close> refers to the second
  socket), both counters are 1, not 0.
\<close>

theorem counters_reset_counterexample:
  "ws (run [WsMessage 0 (Some (results_frame ''hello'' True)) ''10:00:00'',
            ClickDisconnect, ClickConnect True] streaming_page) = Some 1
   \<and> stats_messages (run [WsMessage 0 (Some (results_frame ''hello'' True)) ''10:00:00'',
            ClickDisconnect, ClickConnect True] streaming_page) = 1
   \<and> stats_finals (run [WsMessage 0 (Some (results_frame ''hello'' True)) ''10:00:00'',
            ClickDisconnect, ClickConnect True] streaming_page) = 1"
  by (simp add: streaming_page_eq eval_defs)

section \<open>The transcript invariant\<close>

lemma no_adjacent_interim_snoc:
  "no_adjacent_interim (cs @ [x]) =
     (no_adjacent_interim cs \<and> (cs = [] \<or> \<not> (is_interim_item (last cs) \<and> is_interim_item x)))"
  by (induction cs rule: no_adjacent_interim.induct) auto

lemma addTranscriptItem_invariant:
  assumes "no_adjacent_interim (transcriptContainer_children s)"
  shows "no_adjacent_interim (transcriptContainer_children (addTranscriptItem now t f s))"
proof (cases "\<not> f \<and> transcriptContainer_children s \<noteq> []
              \<and> is_interim_item (last (transcriptContainer_children s))")
  case True
  then obtain pre l where cs: "transcriptContainer_children s = pre @ [l]"
    by (metis append_butlast_last_id)
  from True cs have l: "is_interim_item l" by simp
  from assms cs have "no_adjacent_interim (pre @ [l])" by simp
  with l have "no_adjacent_interim pre" "pre = [] \<or> \<not> is_interim_item (last pre)"
    by (simp_all add: no_adjacent_interim_snoc)
  with True l show ?thesis
    by (auto simp add: addTranscriptItem_children cs no_adjacent_interim_snoc Let_def)
next
  case False
  with assms show ?thesis
    by (auto simp add: addTranscriptItem_children no_adjacent_interim_snoc Let_def is_interim_item_def)
qed

lemma handleWebSocketMessage_children:
  "transcriptContainer_children (handleWebSocketMessage data now s) = transcriptContainer_children s
   \<or> (\<exists>t f s'. transcriptContainer_children s' = transcriptContainer_children s \<and>
         transcriptContainer_children (handleWebSocketMessage data now s) =
         transcriptContainer_children (addTranscriptItem now t f s'))"
proof (cases data)
  case None
  then show ?thesis by (simp add: handleWebSocketMessage_def ui_defs)
next
  case (Some d)
  let ?s2 = "s\<lparr>stats_messages := stats_messages s + 1,
               messageCount_textContent := JNumber (of_nat (stats_messages s + 1))\<rparr>"
  have "transcriptContainer_children (handleWebSocketMessage data now s) = transcriptContainer_children s
     \<or> transcriptContainer_children (handleWebSocketMessage data now s) =
         transcriptContainer_children
           (addTranscriptItem now (extract_transcript d) (truthy (extract_isFinal d)) ?s2)"
    by (simp add: Some handleWebSocketMessage_def ui_defs Let_def split: option.splits)
  moreover have "transcriptContainer_children ?s2 = transcriptContainer_children s" by simp
  ultimately show ?thesis by blast
qed

lemma handleWebSocketMessage_invariant:
  assumes "no_adjacent_interim (transcriptContainer_children s)"
  shows "no_adjacent_interim (transcriptContainer_children (handleWebSocketMessage data now s))"
  using handleWebSocketMessage_children [of data now s] assms addTranscriptItem_invariant
  by (metis)

lemma step_invariant:
  "no_adjacent_interim (transcriptContainer_children s) \<Longrightarrow>
   no_adjacent_interim (transcriptContainer_children (step e s))"
  by (cases e) (simp_all add: keeps handleWebSocketMessage_invariant)

lemma run_invariant:
  "no_adjacent_interim (transcriptContainer_children s) \<Longrightarrow>
   no_adjacent_interim (transcriptContainer_children (run evs s))"
  by (induction evs arbitrary: s) (simp_all add: step_invariant)

section \<open>Audio frames\<close>











section \<open>Connecting\<close>

lemma connect_noop_when_connected: "isConnected s \<Longrightarrow> connect ctor_ok s = s"
  by (simp add: connect_def)

text \<open>
  C4. \<open>connect\<close> should do nothing unless the page is idle, so that at most one channel
  handle and one input handle exist. The guard of \<open>connect\<close> is the flag \<open>isConnected\<close>,
  which is down while a socket is connecting; until then only the disabled button holds a
  second call off. On the reconnecting page the close event of the first socket arrives
  and its timeout runs: the callback sees the flag down and enables the button, though
  the second socket is still connecting. The next click runs \<open>connect\<close>, which creates
  a third socket and makes \<open>state.ws\<close> refer to it. Both pending sockets then open, each
  requests the microphone, and both grants are taken: two channels are open and two
  streams are live.
\<close>

theorem reconnect_race_second_channel:
  "map readyState (sockets (run [WsClose 0, ReconnectTimeout] reconnecting_page)) =
     [CLOSED, CONNECTING]
   \<and> ws (run [WsClose 0, ReconnectTimeout] reconnecting_page) = Some 1
   \<and> \<not> isConnected (run [WsClose 0, ReconnectTimeout] reconnecting_page)
   \<and> \<not> connectBtn_disabled (run [WsClose 0, ReconnectTimeout] reconnecting_page)
   \<and> map readyState
       (sockets (run [WsClose 0, ReconnectTimeout, ClickConnect True] reconnecting_page)) =
       [CLOSED, CONNECTING, CONNECTING]
   \<and> ws (run [WsClose 0, ReconnectTimeout, ClickConnect True] reconnecting_page) = Some 2
   \<and> map readyState
       (sockets (run [WsClose 0, ReconnectTimeout, ClickConnect True, WsOpen 1 Created,
                      WsOpen 2 Created, MicGranted 1 Created, MicGranted 1 Created]
                   reconnecting_page)) = [CLOSED, OPEN, OPEN]
   \<and> streams (run [WsClose 0, ReconnectTimeout, ClickConnect True, WsOpen 1 Created,
                    WsOpen 2 Created, MicGranted 1 Created, MicGranted 1 Created]
                 reconnecting_page) = [[Ended], [Live], [Live]]
   \<and> mediaStream (run [WsClose 0, ReconnectTimeout, ClickConnect True, WsOpen 1 Created,
                        WsOpen 2 Created, MicGranted 1 Created, MicGranted 1 Created]
                     reconnecting_page) = Some 2"
  by (simp add: reconnecting_page_def streaming_page_eq eval_defs)

section \<open>Disconnecting\<close>

lemma disconnect_idle: "Idle s \<Longrightarrow> disconnect s = s"
  by (rule page.equality)
    (simp_all add: Idle_def no_handles_def disconnected_view_def disconnect_def ui_defs Let_def)

lemma Idle_disconnect: "Idle (disconnect s)"
  by (simp add: Idle_def no_handles_def disconnected_view_def disconnect_def ui_defs Let_def
      updateMicrophoneStatus_keeps split: option.splits)

text \<open>
  C9. \<open>disconnect\<close> is a total function: no statement of it can raise. On an idle page
  it changes nothing. On any page without handles it touches no socket, stream or
  processor, shows no alert, logs nothing, and leaves counters, configuration and
  transcript alone. Called twice it does what it does called once, and the page it
  returns is idle.
\<close>

theorem disconnect_idle_idempotent:
  "(Idle s \<longrightarrow> disconnect s = s)
   \<and> (no_handles s \<longrightarrow>
        no_handles (disconnect s)
        \<and> sockets (disconnect s) = sockets s \<and> streams (disconnect s) = streams s
        \<and> processors (disconnect s) = processors s \<and> alerts (disconnect s) = alerts s
        \<and> console (disconnect s) = console s \<and> timers (disconnect s) = timers s
        \<and> micRequests (disconnect s) = micRequests s
        \<and> audioContext (disconnect s) = audioContext s
        \<and> stats_messages (disconnect s) = stats_messages s
        \<and> stats_finals (disconnect s) = stats_finals s
        \<and> config_model (disconnect s) = config_model s
        \<and> config_language (disconnect s) = config_language s
        \<and> transcriptContainer_children (disconnect s) = transcriptContainer_children s)
   \<and> disconnect (disconnect s) = disconnect s
   \<and> Idle (disconnect s)"
proof -
  have a: "Idle s \<longrightarrow> disconnect s = s" by (simp add: disconnect_idle)
  have b: "Idle (disconnect s)" by (rule Idle_disconnect)
  have c: "disconnect (disconnect s) = disconnect s" by (rule disconnect_idle [OF b])
  have d: "no_handles s \<longrightarrow>
        no_handles (disconnect s)
        \<and> sockets (disconnect s) = sockets s \<and> streams (disconnect s) = streams s
        \<and> processors (disconnect s) = processors s \<and> alerts (disconnect s) = alerts s
        \<and> console (disconnect s) = console s \<and> timers (disconnect s) = timers s
        \<and> micRequests (disconnect s) = micRequests s
        \<and> audioContext (disconnect s) = audioContext s
        \<and> stats_messages (disconnect s) = stats_messages s
        \<and> stats_finals (disconnect s) = stats_finals s
        \<and> config_model (disconnect s) = config_model s
        \<and> config_language (disconnect s) = config_language s
        \<and> transcriptContainer_children (disconnect s) = transcriptContainer_children s"
    by (simp add: no_handles_def disconnect_def ui_defs Let_def)
  from a b c d show ?thesis by blast
qed

theorem disconnect_idle_idempotent_witness:
  "(Idle loaded_page \<and> disconnect loaded_page = loaded_page)
   \<and> (no_handles loaded_page \<and> sockets (disconnect loaded_page) = sockets loaded_page
        \<and> console (disconnect loaded_page) = console loaded_page)
   \<and> disconnect (disconnect streaming_page) = disconnect streaming_page
   \<and> Idle (disconnect streaming_page)"
proof -
  have h: "Idle loaded_page" "no_handles loaded_page"
    by (simp_all add: Idle_def no_handles_def disconnected_view_def loaded_page_def)
  with disconnect_idle_idempotent [of loaded_page] disconnect_idle_idempotent [of streaming_page]
  show ?thesis by blast
qed

section \<open>Interim entries\<close>

text \<open>
  C1. Over every sequence of events no two interim entries are ever adjacent in the
  transcript: an interim entry is replaced by the next frame when that frame is interim,
  and a final frame is appended after it. After the interim frame "hello" and the final
  frame "hello world" the transcript holds the interim entry "hello" followed by the final
  entry "hello world", and the counter of final results is 1.
\<close>

theorem interim_never_adjacent:
  "(no_adjacent_interim (transcriptContainer_children s) \<longrightarrow>
      no_adjacent_interim (transcriptContainer_children (run evs s)))
   \<and> transcriptContainer_children
       (run [WsMessage 0 (Some (results_frame ''hello'' False)) ''10:00:00'',
             WsMessage 0 (Some (results_frame ''hello world'' True)) ''10:00:01''] streaming_page) =
       [EmptyState,
        Item \<lparr>interim = True, timestamp = ''10:00:00'', item_text = JString ''hello''\<rparr>,
        Item \<lparr>interim = False, timestamp = ''10:00:01'', item_text = JString ''hello world''\<rparr>]
   \<and> stats_finals
       (run [WsMessage 0 (Some (results_frame ''hello'' False)) ''10:00:00'',
             WsMessage 0 (Some (results_frame ''hello world'' True)) ''10:00:01''] streaming_page) = 1"
proof -
  have "transcriptContainer_children
       (run [WsMessage 0 (Some (results_frame ''hello'' False)) ''10:00:00'',
             WsMessage 0 (Some (results_frame ''hello world'' True)) ''10:00:01''] streaming_page) =
       [EmptyState,
        Item \<lparr>interim = True, timestamp = ''10:00:00'', item_text = JString ''hello''\<rparr>,
        Item \<lparr>interim = False, timestamp = ''10:00:01'', item_text = JString ''hello world''\<rparr>]"
    by (simp add: streaming_page_eq message_defs)
  moreover have "stats_finals
       (run [WsMessage 0 (Some (results_frame ''hello'' False)) ''10:00:00'',
             WsMessage 0 (Some (results_frame ''hello world'' True)) ''10:00:01''] streaming_page) = 1"
    by (simp add: streaming_page_eq message_defs)
  ultimately show ?thesis by (simp add: run_invariant)
qed

theorem interim_never_adjacent_witness:
  "no_adjacent_interim (transcriptContainer_children loaded_page)
   \<and> no_adjacent_interim (transcriptContainer_children
       (run [ClickConnect True, WsOpen 0 Created, MicGranted 1 Created,
             WsMessage 0 (Some (results_frame ''he'' False)) ''10:00:00'',
             WsMessage 0 (Some (results_frame ''hello'' False)) ''10:00:01''] loaded_page))"
proof -
  have h: "no_adjacent_interim (transcriptContainer_children loaded_page)"
    by (simp add: loaded_page_def)
  with interim_never_adjacent
    [of loaded_page "[ClickConnect True, WsOpen 0 Created, MicGranted 1 Created,
             WsMessage 0 (Some (results_frame ''he'' False)) ''10:00:00'',
             WsMessage 0 (Some (results_frame ''hello'' False)) ''10:00:01'']"]
  show ?thesis by blast
qed

text \<open>
  C1, as the specification words it, fails on its own scenario: the interim entry
  "hello" is still in the transcript after the final frame, and it is not the last entry.
  After an interim, a final and another interim frame the transcript holds two interim
  entries.
\<close>

theorem interim_left_over_counterexample:
  "filter is_interim_item (transcriptContainer_children
       (run [WsMessage 0 (Some (results_frame ''hello'' False)) ''10:00:00'',
             WsMessage 0 (Some (results_frame ''hello world'' True)) ''10:00:01''] streaming_page)) =
       [Item \<lparr>interim = True, timestamp = ''10:00:00'', item_text = JString ''hello''\<rparr>]
   \<and> \<not> is_interim_item (last (transcriptContainer_children
       (run [WsMessage 0 (Some (results_frame ''hello'' False)) ''10:00:00'',
             WsMessage 0 (Some (results_frame ''hello world'' True)) ''10:00:01''] streaming_page)))
   \<and> length (filter is_interim_item (transcriptContainer_children
       (run [WsMessage 0 (Some (results_frame ''one'' False)) ''10:00:00'',
             WsMessage 0 (Some (results_frame ''one.'' True)) ''10:00:01'',
             WsMessage 0 (Some (results_frame ''two'' False)) ''10:00:02''] streaming_page))) = 2"
  by (simp add: streaming_page_eq message_defs)

end
